theory Spec2Isabelle
  imports Complex_Main "HOL-Library.Word"
begin

section \<open>The instrument session\<close>

text \<open>
  Every function of \<^verbatim>\<open>hp3458a_utils.py\<close> talks to the multimeter through a VISA
  handle \<^verbatim>\<open>HP3458A\<close> with three methods: \<^verbatim>\<open>write\<close>, \<^verbatim>\<open>query\<close> and
  \<^verbatim>\<open>read_bytes\<close>. The handle is modelled as a record: what the instrument answers is
  a function of everything that was sent to it before, and \<open>log\<close> is that history, oldest
  operation first. The link is taken to be live: the three methods always return.

  Python floats are read as the real numbers they denote; rounding, infinities and
  not-a-number are outside the model.
\<close>

type_synonym byte = "8 word"

datatype event = Write string | Query string | ReadBytes nat

record session =
  answer :: "event list \<Rightarrow> string \<Rightarrow> string"
  deliver :: "event list \<Rightarrow> nat \<Rightarrow> byte list"
  log :: "event list"

definition hp_write :: "session \<Rightarrow> string \<Rightarrow> session" where
  "hp_write HP3458A cmd = HP3458A\<lparr>log := log HP3458A @ [Write cmd]\<rparr>"

definition hp_query :: "session \<Rightarrow> string \<Rightarrow> string \<times> session" where
  "hp_query HP3458A cmd =
     (answer HP3458A (log HP3458A) cmd, HP3458A\<lparr>log := log HP3458A @ [Query cmd]\<rparr>)"

definition hp_read_bytes :: "session \<Rightarrow> nat \<Rightarrow> byte list \<times> session" where
  "hp_read_bytes HP3458A n =
     (deliver HP3458A (log HP3458A) n, HP3458A\<lparr>log := log HP3458A @ [ReadBytes n]\<rparr>)"

text \<open>
  The exceptions a call can end with. \<open>UnsupportedFormat\<close> and \<open>UnsupportedMode\<close> are the
  two \<^verbatim>\<open>ValueError\<close>s the module raises itself (lines 119 and 177);
  \<open>InvalidLiteral\<close> is the \<^verbatim>\<open>ValueError\<close> of \<^verbatim>\<open>int()\<close> and \<^verbatim>\<open>float()\<close> on a
  string that is no number; \<open>StructError\<close> is \<^verbatim>\<open>struct.error\<close>. \<open>NotFinite\<close> marks a
  reply on which \<^verbatim>\<open>float()\<close> yields an infinity or a not-a-number, where the
  real-valued model stops.
\<close>

datatype error =
    UnsupportedFormat
  | UnsupportedMode
  | InvalidLiteral
  | StructError
  | ZeroDivisionError
  | NotFinite

section \<open>Python's string conversions\<close>

definition is_space :: "char \<Rightarrow> bool" where
  "is_space c = (of_char c \<in> {9, 10, 11, 12, 13, 32 :: nat})"

definition strip :: "string \<Rightarrow> string" where
  "strip s = rev (dropWhile is_space (rev (dropWhile is_space s)))"

definition digit_val :: "char \<Rightarrow> nat option" where
  "digit_val c =
     (let k = (of_char c :: nat) in if 48 \<le> k \<and> k \<le> 57 then Some (k - 48) else None)"

text \<open>A run of decimal digits in which single underscores may separate two digits.\<close>

fun digitpart :: "string \<Rightarrow> nat list option" where
  "digitpart [] = None"
| "digitpart [c] = map_option (\<lambda>v. [v]) (digit_val c)"
| "digitpart (c # d # cs) =
     (case digit_val c of
        None \<Rightarrow> None
      | Some v \<Rightarrow>
          if d = CHR ''_'' then map_option ((#) v) (digitpart cs)
          else map_option ((#) v) (digitpart (d # cs)))"

definition decimal :: "nat list \<Rightarrow> nat" where
  "decimal ds = foldl (\<lambda>a d. 10 * a + d) 0 ds"

text \<open>An optional sign in front of the rest of the literal.\<close>

definition split_sign :: "string \<Rightarrow> bool \<times> string" where
  "split_sign s =
     (case s of
        [] \<Rightarrow> (False, [])
      | c # cs \<Rightarrow>
          if c = CHR ''-'' then (True, cs)
          else if c = CHR ''+'' then (False, cs)
          else (False, s))"

text \<open>\<^verbatim>\<open>int(s)\<close> on a string, base ten.\<close>

definition py_int :: "string \<Rightarrow> error + int" where
  "py_int s =
     (let (neg, body) = split_sign (strip s) in
      case digitpart body of
        None \<Rightarrow> Inl InvalidLiteral
      | Some ds \<Rightarrow> Inr (if neg then - int (decimal ds) else int (decimal ds)))"

text \<open>
  \<^verbatim>\<open>float(s)\<close> on a string: an optional sign, then digits with an optional point and
  an optional exponent. \<open>split_at\<close> cuts a string at the first character that satisfies
  a test and tells whether there was one.
\<close>

definition lower :: "char \<Rightarrow> char" where
  "lower c =
     (let k = (of_char c :: nat) in if 65 \<le> k \<and> k \<le> 90 then char_of (k + 32) else c)"

definition split_at :: "(char \<Rightarrow> bool) \<Rightarrow> string \<Rightarrow> string \<times> string option" where
  "split_at P s =
     (takeWhile (\<lambda>c. \<not> P c) s,
      case dropWhile (\<lambda>c. \<not> P c) s of [] \<Rightarrow> None | _ # r \<Rightarrow> Some r)"

definition number :: "string \<Rightarrow> (nat list \<times> nat list) option" where
  "number s =
     (case split_at (\<lambda>c. c = CHR ''.'') s of
        (ip, None) \<Rightarrow> map_option (\<lambda>ds. (ds, [])) (digitpart ip)
      | (ip, Some fp) \<Rightarrow>
          if fp = [] then map_option (\<lambda>ds. (ds, [])) (digitpart ip)
          else (case digitpart fp of
                  None \<Rightarrow> None
                | Some fs \<Rightarrow>
                    if ip = [] then Some ([], fs)
                    else map_option (\<lambda>ds. (ds, fs)) (digitpart ip)))"

definition exponent :: "string option \<Rightarrow> int option" where
  "exponent ex =
     (case ex of
        None \<Rightarrow> Some 0
      | Some t \<Rightarrow>
          (let (neg, body) = split_sign t in
           map_option (\<lambda>ds. if neg then - int (decimal ds) else int (decimal ds))
             (digitpart body)))"

definition scale10 :: "real \<Rightarrow> int \<Rightarrow> real" where
  "scale10 x e = (if e < 0 then x / 10 ^ nat (- e) else x * 10 ^ nat e)"

definition py_float :: "string \<Rightarrow> error + real" where
  "py_float s =
     (let (neg, body) = split_sign (strip s) in
      if map lower body \<in> {''inf'', ''infinity'', ''nan''} then Inl NotFinite
      else
        (case split_at (\<lambda>c. c = CHR ''e'' \<or> c = CHR ''E'') body of
           (m, ex) \<Rightarrow>
             (case number m of
                None \<Rightarrow> Inl InvalidLiteral
              | Some (ip, fp) \<Rightarrow>
                  (case exponent ex of
                     None \<Rightarrow> Inl InvalidLiteral
                   | Some e \<Rightarrow>
                       (let v = scale10 (real (decimal ip)
                                  + real (decimal fp) / 10 ^ length fp) e
                        in Inr (if neg then - v else v))))))"

text \<open>\<^verbatim>\<open>s.find(c)\<close> and the slice \<^verbatim>\<open>s[:k]\<close>, where a negative \<open>k\<close> counts from the end.\<close>

definition py_find :: "string \<Rightarrow> char \<Rightarrow> int" where
  "py_find s c = (if c \<in> set s then int (length (takeWhile (\<lambda>d. d \<noteq> c) s)) else - 1)"

definition py_slice_to :: "string \<Rightarrow> int \<Rightarrow> string" where
  "py_slice_to s k = (if k < 0 then take (nat (int (length s) + k)) s else take (nat k) s)"

text \<open>\<^verbatim>\<open>str(n)\<close> of a natural number.\<close>

definition digit_char :: "nat \<Rightarrow> char" where
  "digit_char d = ''0123456789'' ! d"

function str_nat :: "nat \<Rightarrow> string" where
  "str_nat n = (if n < 10 then [digit_char n] else str_nat (n div 10) @ [digit_char (n mod 10)])"
  by pat_completeness auto
termination
  by (relation "measure (\<lambda>n. n)") auto

declare str_nat.simps [simp del]

section \<open>Big-endian integers\<close>

text \<open>
  \<^verbatim>\<open>struct.unpack('>' + c*N, data)\<close> for the two codes the module uses: \<^verbatim>\<open>'i'\<close> is a
  signed integer of four bytes, \<^verbatim>\<open>'h'\<close> one of two bytes, most significant byte first.
  A buffer of another length than the format asks for is \<^verbatim>\<open>struct.error\<close>.
  \<open>pack_be\<close> is \<^verbatim>\<open>struct.pack\<close> the other way round, used to build test buffers.
\<close>

definition calcsize :: "char \<Rightarrow> nat" where
  "calcsize c = (if c = CHR ''i'' then 4 else if c = CHR ''h'' then 2 else 0)"

definition be_unsigned :: "byte list \<Rightarrow> int" where
  "be_unsigned bs = foldl (\<lambda>a b. 256 * a + uint b) 0 bs"

definition be_signed :: "byte list \<Rightarrow> int" where
  "be_signed bs =
     (let u = be_unsigned bs; n = 8 * length bs
      in if 2 ^ (n - 1) \<le> u then u - 2 ^ n else u)"

primrec chunks :: "nat \<Rightarrow> nat \<Rightarrow> 'a list \<Rightarrow> 'a list list" where
  "chunks w 0 xs = []"
| "chunks w (Suc n) xs = take w xs # chunks w n (drop w xs)"

definition unpack :: "char \<Rightarrow> nat \<Rightarrow> byte list \<Rightarrow> error + int list" where
  "unpack c N data =
     (if length data \<noteq> calcsize c * N then Inl StructError
      else Inr (map be_signed (chunks (calcsize c) N data)))"

primrec pack_be :: "nat \<Rightarrow> int \<Rightarrow> byte list" where
  "pack_be 0 x = []"
| "pack_be (Suc w) x = pack_be w (x div 256) @ [word_of_int x]"

section \<open>The mode configurator\<close>

text \<open>
  How Python prints a float depends on its machine representation, so the printer is a
  parameter \<open>str_float\<close> of the two functions. Dividing by a zero frequency raises
  \<^verbatim>\<open>ZeroDivisionError\<close> in the middle of the sequence, after the commands before it
  have been sent.
\<close>

definition configure_sub_sampling ::
  "(real \<Rightarrow> string) \<Rightarrow> session \<Rightarrow> nat \<Rightarrow> real \<Rightarrow> real \<Rightarrow> (error + unit) \<times> session" where
  "configure_sub_sampling str_float HP3458A samples_per_burst effective_sampling_frequency max_input =
     (let HP1 = hp_write HP3458A ''PRESET FAST'';
          HP2 = hp_write HP1 ''MEM FIFO'';
          HP3 = hp_write HP2 ''MFORMAT SINT'';
          HP4 = hp_write HP3 ''OFORMAT SINT'';
          HP5 = hp_write HP4 ''SSDC 1''
      in if effective_sampling_frequency = 0 then (Inl ZeroDivisionError, HP5)
         else
           (let HP6 = hp_write HP5 (''SWEEP '' @ str_float (1 / effective_sampling_frequency)
                                      @ '','' @ str_nat samples_per_burst);
                HP7 = hp_write HP6 ''SSRC EXT'';
                HP8 = hp_write HP7 ''TARM HOLD''
            in (Inr (), HP8)))"

definition configure_DCV_digitalizing ::
  "(real \<Rightarrow> string) \<Rightarrow> session \<Rightarrow> nat \<Rightarrow> real \<Rightarrow> real \<Rightarrow> real \<Rightarrow> (error + unit) \<times> session" where
  "configure_DCV_digitalizing str_float HP3458A samples_per_burst sampling_frequency aper_time max_input =
     (let HP1 = hp_write HP3458A ''PRESET DIG'';
          HP2 = hp_write HP1 ''MEM LIFO'';
          memory_format = (if aper_time > 14 / 10 ^ 7 then ''DINT'' else ''SINT'');
          HP3 = hp_write HP2 (''MFORMAT '' @ memory_format);
          HP4 = hp_write HP3 (''OFORMAT '' @ memory_format)
      in if sampling_frequency = 0 then (Inl ZeroDivisionError, HP4)
         else
           (let HP5 = hp_write HP4 (''TIMER '' @ str_float (1 / sampling_frequency));
                HP6 = hp_write HP5 (''APER '' @ str_float aper_time);
                HP7 = hp_write HP6 (''NRDGS '' @ str_nat samples_per_burst @ '', TIMER'');
                HP8 = hp_write HP7 ''TRIG EXT'';
                HP9 = hp_write HP8 (''DCV '' @ str_float \<bar>max_input\<bar>);
                HP10 = hp_write HP9 ''TARM AUTO''
            in (Inr (), HP10)))"

section \<open>The sample decoder\<close>

text \<open>Lines 120 to 124 of \<^verbatim>\<open>read_binary_mem\<close>, once the format is known.\<close>

definition read_binary_mem_body ::
  "session \<Rightarrow> nat \<Rightarrow> char \<Rightarrow> nat \<Rightarrow> (error + real list) \<times> session" where
  "read_binary_mem_body HP3458A N_SAMPLES conversion_format bytes_per_sample =
     (let HP1 = hp_write HP3458A (''RMEM 1,'' @ str_nat N_SAMPLES);
          (data, HP2) = hp_read_bytes HP1 (bytes_per_sample * N_SAMPLES)
      in case unpack conversion_format N_SAMPLES data of
           Inl e \<Rightarrow> (Inl e, HP2)
         | Inr samples \<Rightarrow>
             (let (r, HP3) = hp_query HP2 ''ISCALE?''
              in case py_float r of
                   Inl e \<Rightarrow> (Inl e, HP3)
                 | Inr ISCALE \<Rightarrow>
                     (Inr (rev (map (\<lambda>x. real_of_int x * ISCALE) samples)), HP3)))"

definition read_binary_mem :: "session \<Rightarrow> nat \<Rightarrow> (error + real list) \<times> session" where
  "read_binary_mem HP3458A N_SAMPLES =
     (let (r1, HP1) = hp_query HP3458A ''MFORMAT?''
      in case py_int r1 of
           Inl e \<Rightarrow> (Inl e, HP1)
         | Inr f1 \<Rightarrow>
             if f1 = 3 then read_binary_mem_body HP1 N_SAMPLES CHR ''i'' 4
             else
               (let (r2, HP2) = hp_query HP1 ''MFORMAT?''
                in case py_int r2 of
                     Inl e \<Rightarrow> (Inl e, HP2)
                   | Inr f2 \<Rightarrow>
                       if f2 = 2 then read_binary_mem_body HP2 N_SAMPLES CHR ''h'' 2
                       else (Inl UnsupportedFormat, HP2)))"

section \<open>The aperture check\<close>

definition T_aper_check :: "real \<Rightarrow> bool" where
  "T_aper_check T_aper =
     (if T_aper < 500 / 10 ^ 9 \<or> T_aper > 1 then False else True)"

section \<open>The uncertainty estimator\<close>

text \<open>The chain of comparisons of lines 140 to 154: the pair \<open>(bits, cutoff_3dB)\<close>.\<close>

definition aper_table :: "real \<Rightarrow> nat \<times> real" where
  "aper_table T_aper =
     (if T_aper < 1 / 10 ^ 6 then (15, 400000)
      else if T_aper < 3 / 10 ^ 6 then (16, 206000)
      else if T_aper < 6 / 10 ^ 6 then (17, 69000)
      else if T_aper < 100 / 10 ^ 6 then (18, 35000)
      else (21, 2000))"

definition get_uncertainty_DCV_sampling :: "session \<Rightarrow> (error + real list) \<times> session" where
  "get_uncertainty_DCV_sampling HP3458A =
     (let (r1, HP1) = hp_query HP3458A ''APER?''
      in case py_float r1 of
           Inl e \<Rightarrow> (Inl e, HP1)
         | Inr T_aper \<Rightarrow>
             (let (bits, cutoff_3dB) = aper_table T_aper;
                  (r2, HP2) = hp_query HP1 ''RANGE?''
              in case py_float r2 of
                   Inl e \<Rightarrow> (Inl e, HP2)
                 | Inr DMM_range \<Rightarrow>
                     (Inr [14 / 10 ^ 6, 3 / 10 ^ 6 + DMM_range / 2 ^ bits], HP2)))"

definition get_uncertainty_direct_sampling :: "session \<Rightarrow> (error + real list) \<times> session" where
  "get_uncertainty_direct_sampling HP3458A =
     (let (r, HP1) = hp_query HP3458A ''RANGE?''
      in case py_float r of
           Inl e \<Rightarrow> (Inl e, HP1)
         | Inr DMM_range \<Rightarrow> (Inr [(2 / 100) / 100, DMM_range / 2 ^ 16], HP1))"

definition get_uncertainty :: "session \<Rightarrow> (error + real list) \<times> session" where
  "get_uncertainty HP3458A =
     (let (current_mode, HP1) = hp_query HP3458A ''FUNC?''
      in case py_int (py_slice_to current_mode (py_find current_mode CHR '','')) of
           Inl e \<Rightarrow> (Inl e, HP1)
         | Inr mode \<Rightarrow>
             if mode = 1 then get_uncertainty_DCV_sampling HP1
             else if mode = 12 then get_uncertainty_direct_sampling HP1
             else if mode = 14 then (Inr [1, 1], HP1)
             else (Inl UnsupportedMode, HP1))"

text \<open>The operations a call has issued: what it appended to the log.\<close>

definition issued :: "session \<Rightarrow> session \<Rightarrow> event list" where
  "issued HP HP' = drop (length (log HP)) (log HP')"

text \<open>
  A synthetic instrument for the scenarios: a fixed answer to each query, one fixed
  buffer for every binary read, and nothing sent yet.
\<close>

definition synthetic :: "(string \<Rightarrow> string) \<Rightarrow> byte list \<Rightarrow> session" where
  "synthetic replies buffer = \<lparr>answer = (\<lambda>h. replies), deliver = (\<lambda>h n. buffer), log = []\<rparr>"

section \<open>Auxiliary facts\<close>

text \<open>
  Unfolding sets for evaluating the two number parsers on a concrete reply, and the
  replies the scenarios below use.
\<close>

lemmas float_defs = py_float_def strip_def is_space_def split_sign_def digit_val_def decimal_def
      lower_def split_at_def number_def exponent_def scale10_def

lemmas int_defs = py_int_def strip_def is_space_def split_sign_def digit_val_def decimal_def

lemma py_int_2: "py_int ''2'' = Inr 2"
  by (simp add: int_defs)

lemma py_int_3: "py_int ''3'' = Inr 3"
  by (simp add: int_defs)

lemma py_int_7: "py_int ''7'' = Inr 7"
  by (simp add: int_defs)

lemma py_float_half: "py_float ''0.5'' = Inr (1 / 2)"
  by (simp add: float_defs)

lemma pack_demo: "concat (map (pack_be 2) [1, - 2]) = [0, 1, 255, 254]"
  by code_simp

text \<open>
  Packing an integer that fits the width and reading it back gives the integer: the
  bytes hold it modulo \<open>256 ^ w\<close>, and the sign test undoes the wrap-around.
\<close>

lemma be_unsigned_snoc: "be_unsigned (bs @ [b]) = 256 * be_unsigned bs + uint b"
  by (simp add: be_unsigned_def)

lemma length_pack_be: "length (pack_be w x) = w"
  by (induction w arbitrary: x) auto

lemma be_unsigned_pack_be: "be_unsigned (pack_be w x) = x mod 256 ^ w"
proof (induction w arbitrary: x)
  case 0
  show ?case by (simp add: be_unsigned_def)
next
  case (Suc w)
  have "uint (word_of_int x :: byte) = x mod 256"
    by (simp add: uint_word_of_int take_bit_eq_mod)
  moreover have "x mod (256 * 256 ^ w) = 256 * (x div 256 mod 256 ^ w) + x mod 256"
    by (rule zmod_zmult2_eq) simp
  ultimately show ?case
    by (simp add: be_unsigned_snoc Suc.IH)
qed

lemma mod_window:
  fixes x h :: int
  assumes "- h \<le> x" "x < h"
  shows "(if h \<le> x mod (2 * h) then x mod (2 * h) - 2 * h else x mod (2 * h)) = x"
proof (cases "0 \<le> x")
  case True
  with assms have "x mod (2 * h) = x" by simp
  with assms show ?thesis by simp
next
  case False
  with assms have "0 \<le> x + 2 * h" "x + 2 * h < 2 * h" by simp_all
  then have "(x + 2 * h) mod (2 * h) = x + 2 * h" by (rule mod_pos_pos_trivial)
  then have "x mod (2 * h) = x + 2 * h" by simp
  with assms show ?thesis by simp
qed

lemma be_signed_pack_be:
  assumes "0 < w" "- (2 ^ (8 * w - 1)) \<le> x" "x < 2 ^ (8 * w - 1)"
  shows "be_signed (pack_be w x) = x"
proof -
  define h :: int where "h = 2 ^ (8 * w - 1)"
  have "(256 :: int) ^ w = (2 ^ 8) ^ w" by simp
  also have "\<dots> = 2 ^ (8 * w)" by (simp only: power_mult)
  finally have p: "(256 :: int) ^ w = 2 ^ (8 * w)" .
  from assms(1) have "8 * w = Suc (8 * w - 1)" by simp
  then have "(2 :: int) ^ (8 * w) = 2 ^ Suc (8 * w - 1)" by simp
  then have q: "(2 :: int) ^ (8 * w) = 2 * h" by (simp add: h_def)
  have u: "be_unsigned (pack_be w x) = x mod (2 * h)"
    by (simp only: be_unsigned_pack_be p q)
  have "- h \<le> x" "x < h" using assms by (simp_all add: h_def)
  then have m: "(if h \<le> x mod (2 * h) then x mod (2 * h) - 2 * h else x mod (2 * h)) = x"
    by (rule mod_window)
  have "be_signed (pack_be w x) =
      (if h \<le> x mod (2 * h) then x mod (2 * h) - 2 * h else x mod (2 * h))"
    unfolding be_signed_def Let_def length_pack_be u q h_def [symmetric] ..
  with m show ?thesis by simp
qed

lemma length_concat_pack:
  "length (concat (map (pack_be w) raw)) = w * length raw"
  by (induction raw) (simp_all add: length_pack_be)

lemma chunks_concat_pack:
  "chunks w (length raw) (concat (map (pack_be w) raw)) = map (pack_be w) raw"
  by (induction raw) (simp_all add: length_pack_be)

lemma unpack_pack:
  assumes "0 < calcsize c"
    and "\<forall>x\<in>set raw. - (2 ^ (8 * calcsize c - 1)) \<le> x \<and> x < 2 ^ (8 * calcsize c - 1)"
  shows "unpack c (length raw) (concat (map (pack_be (calcsize c)) raw)) = Inr raw"
proof -
  have "map be_signed (map (pack_be (calcsize c)) raw) = raw"
    using assms by (simp add: map_idI be_signed_pack_be)
  then show ?thesis
    by (simp add: unpack_def length_concat_pack chunks_concat_pack)
qed

lemma read_binary_mem_body_roundtrip:
  assumes "0 < calcsize c"
    and "\<forall>x\<in>set raw. - (2 ^ (8 * calcsize c - 1)) \<le> x \<and> x < 2 ^ (8 * calcsize c - 1)"
    and "\<forall>h. deliver HP h (calcsize c * length raw) = concat (map (pack_be (calcsize c)) raw)"
    and "\<forall>h. py_float (answer HP h ''ISCALE?'') = Inr ISCALE"
  shows "fst (read_binary_mem_body HP (length raw) c (calcsize c))
         = Inr (rev (map (\<lambda>x. real_of_int x * ISCALE) raw))"
  using assms(3,4) unpack_pack [OF assms(1,2)]
  by (simp add: read_binary_mem_body_def hp_write_def hp_read_bytes_def hp_query_def Let_def)

section \<open>Properties\<close>

text \<open>
  C1: take an instrument that always reports memory format 2 or 3, always delivers the
  big-endian encoding of a known list \<open>raw\<close> of \<open>N\<close> integers that fit the format's width,
  and always reports the scale factor \<open>ISCALE\<close>. Then \<open>read_binary_mem\<close> returns a
  sequence of exactly \<open>N\<close> elements, and its element \<open>i\<close> is element \<open>i\<close> of the reversed
  \<open>raw\<close> times \<open>ISCALE\<close>.
\<close>

theorem read_binary_mem_roundtrip:
  assumes code: "code = 2 \<or> code = 3"
    and fmt: "\<forall>h. py_int (answer HP h ''MFORMAT?'') = Inr code"
    and width: "w = (if code = 3 then 4 else 2)"
    and len: "length raw = N"
    and rng: "\<forall>x\<in>set raw. - (2 ^ (8 * w - 1)) \<le> x \<and> x < 2 ^ (8 * w - 1)"
    and buf: "\<forall>h. deliver HP h (w * N) = concat (map (pack_be w) raw)"
    and sc: "\<forall>h. py_float (answer HP h ''ISCALE?'') = Inr ISCALE"
  shows "\<exists>decoded. fst (read_binary_mem HP N) = Inr decoded
           \<and> length decoded = N
           \<and> (\<forall>i<N. decoded ! i = real_of_int (rev raw ! i) * ISCALE)"
proof -
  let ?out = "rev (map (\<lambda>x. real_of_int x * ISCALE) raw)"
  have r: "fst (read_binary_mem HP N) = Inr ?out"
  proof (cases "code = 3")
    case True
    let ?HP1 = "HP\<lparr>log := log HP @ [Query ''MFORMAT?'']\<rparr>"
    have c: "calcsize CHR ''i'' = 4" by (simp add: calcsize_def)
    have "fst (read_binary_mem_body ?HP1 (length raw) CHR ''i'' (calcsize CHR ''i'')) = Inr ?out"
      by (rule read_binary_mem_body_roundtrip) (use True width len rng buf sc c in simp_all)
    then show ?thesis
      using True fmt len c by (simp add: read_binary_mem_def hp_query_def)
  next
    case False
    with code have two: "code = 2" by simp
    let ?HP2 = "HP\<lparr>log := log HP @ [Query ''MFORMAT?'', Query ''MFORMAT?'']\<rparr>"
    have c: "calcsize CHR ''h'' = 2" by (simp add: calcsize_def)
    have "fst (read_binary_mem_body ?HP2 (length raw) CHR ''h'' (calcsize CHR ''h'')) = Inr ?out"
      by (rule read_binary_mem_body_roundtrip) (use two width len rng buf sc c in simp_all)
    then show ?thesis
      using two fmt len c by (simp add: read_binary_mem_def hp_query_def)
  qed
  have "length ?out = N" using len by simp
  moreover have "\<forall>i<N. ?out ! i = real_of_int (rev raw ! i) * ISCALE"
  proof (intro allI impI)
    fix i
    assume "i < N"
    with len have "i < length (rev raw)" by simp
    then have "map (\<lambda>x. real_of_int x * ISCALE) (rev raw) ! i = real_of_int (rev raw ! i) * ISCALE"
      by (rule nth_map)
    then show "?out ! i = real_of_int (rev raw ! i) * ISCALE"
      by (simp add: rev_map)
  qed
  ultimately show ?thesis using r by blast
qed

theorem read_binary_mem_roundtrip_witness:
  "\<exists>decoded.
     fst (read_binary_mem
           (synthetic (\<lambda>q. if q = ''MFORMAT?'' then ''2'' else ''0.5'') [0, 1, 255, 254]) 2)
       = Inr decoded
     \<and> length decoded = 2
     \<and> (\<forall>i<2. decoded ! i = real_of_int (rev [1, - 2] ! i) * (1 / 2))"
proof -
  let ?HP = "synthetic (\<lambda>q. if q = ''MFORMAT?'' then ''2'' else ''0.5'') [0, 1, 255, 254]"
  have a: "(2 :: int) = 2 \<or> (2 :: int) = 3" by simp
  have b: "\<forall>h. py_int (answer ?HP h ''MFORMAT?'') = Inr 2"
    by (simp add: synthetic_def py_int_2)
  have c: "(2 :: nat) = (if (2 :: int) = 3 then 4 else 2)" by simp
  have d: "length [1, - 2 :: int] = 2" by simp
  have e: "\<forall>x\<in>set [1, - 2 :: int]. - (2 ^ (8 * 2 - 1)) \<le> x \<and> x < 2 ^ (8 * 2 - 1)" by simp
  have f: "\<forall>h. deliver ?HP h (2 * 2) = concat (map (pack_be 2) [1, - 2])"
    by (simp only: pack_demo) (simp add: synthetic_def)
  have g: "\<forall>h. py_float (answer ?HP h ''ISCALE?'') = Inr (1 / 2)"
    by (simp add: synthetic_def py_float_half)
  show ?thesis
    by (rule read_binary_mem_roundtrip [OF a b c d e f g])
qed

text \<open>
  C2: with an instrument that always reports memory format \<open>code\<close>: code 3 runs the
  read with the four-byte format and issues one format query, the memory-dump command and
  a read of \<open>4 * N\<close> bytes; code 2 runs it with the two-byte format and reads
  \<open>2 * N\<close> bytes after two format queries; any other code ends with
  \<open>UnsupportedFormat\<close>, and the two format queries are all that was issued: no
  memory-dump command, no read of bytes, no result.
\<close>

theorem read_binary_mem_format:
  assumes "\<forall>h. py_int (answer HP h ''MFORMAT?'') = Inr code"
  shows "(code = 3 \<longrightarrow>
            read_binary_mem HP N =
              read_binary_mem_body (HP\<lparr>log := log HP @ [Query ''MFORMAT?'']\<rparr>) N CHR ''i'' 4
            \<and> take 3 (issued HP (snd (read_binary_mem HP N))) =
                [Query ''MFORMAT?'', Write (''RMEM 1,'' @ str_nat N), ReadBytes (4 * N)])
       \<and> (code = 2 \<longrightarrow>
            read_binary_mem HP N =
              read_binary_mem_body
                (HP\<lparr>log := log HP @ [Query ''MFORMAT?'', Query ''MFORMAT?'']\<rparr>) N CHR ''h'' 2
            \<and> take 4 (issued HP (snd (read_binary_mem HP N))) =
                [Query ''MFORMAT?'', Query ''MFORMAT?'',
                 Write (''RMEM 1,'' @ str_nat N), ReadBytes (2 * N)])
       \<and> (code \<noteq> 2 \<and> code \<noteq> 3 \<longrightarrow>
            read_binary_mem HP N =
              (Inl UnsupportedFormat,
               HP\<lparr>log := log HP @ [Query ''MFORMAT?'', Query ''MFORMAT?'']\<rparr>)
            \<and> issued HP (snd (read_binary_mem HP N)) =
                [Query ''MFORMAT?'', Query ''MFORMAT?''])"
proof (intro conjI impI)
  assume c: "code = 3"
  with assms show r3: "read_binary_mem HP N =
      read_binary_mem_body (HP\<lparr>log := log HP @ [Query ''MFORMAT?'']\<rparr>) N CHR ''i'' 4"
    by (simp add: read_binary_mem_def hp_query_def)
  show "take 3 (issued HP (snd (read_binary_mem HP N))) =
      [Query ''MFORMAT?'', Write (''RMEM 1,'' @ str_nat N), ReadBytes (4 * N)]"
    unfolding r3
    by (simp add: issued_def read_binary_mem_body_def hp_write_def hp_read_bytes_def
        hp_query_def Let_def split: sum.split)
next
  assume c: "code = 2"
  with assms show r2: "read_binary_mem HP N =
      read_binary_mem_body
        (HP\<lparr>log := log HP @ [Query ''MFORMAT?'', Query ''MFORMAT?'']\<rparr>) N CHR ''h'' 2"
    by (simp add: read_binary_mem_def hp_query_def)
  show "take 4 (issued HP (snd (read_binary_mem HP N))) =
      [Query ''MFORMAT?'', Query ''MFORMAT?'',
       Write (''RMEM 1,'' @ str_nat N), ReadBytes (2 * N)]"
    unfolding r2
    by (simp add: issued_def read_binary_mem_body_def hp_write_def hp_read_bytes_def
        hp_query_def Let_def split: sum.split)
next
  assume c: "code \<noteq> 2 \<and> code \<noteq> 3"
  with assms show r: "read_binary_mem HP N =
      (Inl UnsupportedFormat, HP\<lparr>log := log HP @ [Query ''MFORMAT?'', Query ''MFORMAT?'']\<rparr>)"
    by (simp add: read_binary_mem_def hp_query_def)
  show "issued HP (snd (read_binary_mem HP N)) = [Query ''MFORMAT?'', Query ''MFORMAT?'']"
    unfolding r by (simp add: issued_def)
qed

theorem read_binary_mem_format_witness:
  "take 3 (issued (synthetic (\<lambda>q. ''3'') []) (snd (read_binary_mem (synthetic (\<lambda>q. ''3'') []) 5)))
     = [Query ''MFORMAT?'', Write ''RMEM 1,5'', ReadBytes 20]
   \<and> take 4 (issued (synthetic (\<lambda>q. ''2'') []) (snd (read_binary_mem (synthetic (\<lambda>q. ''2'') []) 5)))
     = [Query ''MFORMAT?'', Query ''MFORMAT?'', Write ''RMEM 1,5'', ReadBytes 10]
   \<and> fst (read_binary_mem (synthetic (\<lambda>q. ''7'') []) 5) = Inl UnsupportedFormat
   \<and> issued (synthetic (\<lambda>q. ''7'') []) (snd (read_binary_mem (synthetic (\<lambda>q. ''7'') []) 5))
     = [Query ''MFORMAT?'', Query ''MFORMAT?'']"
proof -
  have a3: "\<forall>h. py_int (answer (synthetic (\<lambda>q. ''3'') []) h ''MFORMAT?'') = Inr 3"
    by (simp add: synthetic_def py_int_3)
  have a2: "\<forall>h. py_int (answer (synthetic (\<lambda>q. ''2'') []) h ''MFORMAT?'') = Inr 2"
    by (simp add: synthetic_def py_int_2)
  have a7: "\<forall>h. py_int (answer (synthetic (\<lambda>q. ''7'') []) h ''MFORMAT?'') = Inr 7"
    by (simp add: synthetic_def py_int_7)
  have n7: "(7 :: int) \<noteq> 2 \<and> (7 :: int) \<noteq> 3" by simp
  have s: "''RMEM 1,'' @ str_nat 5 = ''RMEM 1,5''"
    by (simp add: str_nat.simps digit_char_def)
  have m3: "4 * 5 = (20 :: nat)" and m2: "2 * 5 = (10 :: nat)" by simp_all
  note t3 = read_binary_mem_format [OF a3, of 5, THEN conjunct1, THEN mp, OF refl,
      THEN conjunct2, unfolded s m3]
  note t2 = read_binary_mem_format [OF a2, of 5, THEN conjunct2, THEN conjunct1, THEN mp,
      OF refl, THEN conjunct2, unfolded s m2]
  note t7 = read_binary_mem_format [OF a7, of 5, THEN conjunct2, THEN conjunct2, THEN mp, OF n7]
  from t7 have e7: "fst (read_binary_mem (synthetic (\<lambda>q. ''7'') []) 5) = Inl UnsupportedFormat"
    by (simp only: fst_conv)
  from t3 t2 e7 t7 [THEN conjunct2] show ?thesis by (intro conjI)
qed

text \<open>
  C3: the table of aperture times selects the bits by half-open intervals, the first
  match winning: below 1 microsecond 15 bits, below 3 microseconds 16, below 6
  microseconds 17, below 100 microseconds 18, and 21 from 100 microseconds on. So 999 ns
  gives 15, 1000 ns and 2999 ns give 16, and 3000 ns gives 17.
\<close>

theorem aper_table_bits:
  "(T < 1 / 10 ^ 6 \<longrightarrow> fst (aper_table T) = 15)
   \<and> (1 / 10 ^ 6 \<le> T \<and> T < 3 / 10 ^ 6 \<longrightarrow> fst (aper_table T) = 16)
   \<and> (3 / 10 ^ 6 \<le> T \<and> T < 6 / 10 ^ 6 \<longrightarrow> fst (aper_table T) = 17)
   \<and> (6 / 10 ^ 6 \<le> T \<and> T < 100 / 10 ^ 6 \<longrightarrow> fst (aper_table T) = 18)
   \<and> (100 / 10 ^ 6 \<le> T \<longrightarrow> fst (aper_table T) = 21)
   \<and> fst (aper_table (999 / 10 ^ 9)) = 15
   \<and> fst (aper_table (1000 / 10 ^ 9)) = 16
   \<and> fst (aper_table (2999 / 10 ^ 9)) = 16
   \<and> fst (aper_table (3000 / 10 ^ 9)) = 17"
  by (simp add: aper_table_def)

theorem aper_table_bits_witness:
  "fst (aper_table (5 / 10 ^ 7)) = 15
   \<and> fst (aper_table (2 / 10 ^ 6)) = 16
   \<and> fst (aper_table (5 / 10 ^ 6)) = 17
   \<and> fst (aper_table (6 / 10 ^ 6)) = 18
   \<and> fst (aper_table (99999 / 10 ^ 9)) = 18
   \<and> fst (aper_table (100 / 10 ^ 6)) = 21"
  using aper_table_bits [of "5 / 10 ^ 7"] aper_table_bits [of "2 / 10 ^ 6"]
    aper_table_bits [of "5 / 10 ^ 6"] aper_table_bits [of "6 / 10 ^ 6"]
    aper_table_bits [of "99999 / 10 ^ 9"] aper_table_bits [of "100 / 10 ^ 6"]
  by simp

text \<open>
  C4: when the text before the first comma of the reply to \<^verbatim>\<open>FUNC?\<close> reads mode 1,
  \<open>get_uncertainty\<close> queries the aperture time and then the range \<open>R\<close>, and returns
  \<open>[14e-6, 3e-6 + R / 2 ^ bits]\<close> with the bits of the aperture table. With an aperture
  of 2 microseconds and a range of 10 this is \<open>[14e-6, 3e-6 + 10 / 65536]\<close>.
\<close>

theorem get_uncertainty_DCV:
  assumes "py_int (py_slice_to (answer HP (log HP) ''FUNC?'')
                    (py_find (answer HP (log HP) ''FUNC?'') CHR '','')) = Inr 1"
    and "py_float (answer HP (log HP @ [Query ''FUNC?'']) ''APER?'') = Inr T_aper"
    and "py_float (answer HP (log HP @ [Query ''FUNC?'', Query ''APER?'']) ''RANGE?'') = Inr R"
  shows "fst (get_uncertainty HP) = Inr [14 / 10 ^ 6, 3 / 10 ^ 6 + R / 2 ^ fst (aper_table T_aper)]
       \<and> issued HP (snd (get_uncertainty HP)) = [Query ''FUNC?'', Query ''APER?'', Query ''RANGE?'']
       \<and> (T_aper = 2 / 10 ^ 6 \<and> R = 10 \<longrightarrow>
            fst (get_uncertainty HP) = Inr [14 / 10 ^ 6, 3 / 10 ^ 6 + 10 / 65536])"
proof -
  have r: "get_uncertainty HP =
      (Inr [14 / 10 ^ 6, 3 / 10 ^ 6 + R / 2 ^ fst (aper_table T_aper)],
       HP\<lparr>log := log HP @ [Query ''FUNC?'', Query ''APER?'', Query ''RANGE?'']\<rparr>)"
    using assms
    by (simp add: get_uncertainty_def get_uncertainty_DCV_sampling_def hp_query_def
        Let_def split_beta)
  have b: "fst (aper_table (2 / 10 ^ 6)) = 16" by (simp add: aper_table_def)
  show ?thesis
  proof (intro conjI impI)
    show "fst (get_uncertainty HP) = Inr [14 / 10 ^ 6, 3 / 10 ^ 6 + R / 2 ^ fst (aper_table T_aper)]"
      unfolding r by simp
    show "issued HP (snd (get_uncertainty HP)) = [Query ''FUNC?'', Query ''APER?'', Query ''RANGE?'']"
      unfolding r by (simp add: issued_def)
    assume "T_aper = 2 / 10 ^ 6 \<and> R = 10"
    then have t: "T_aper = 2 / 10 ^ 6" and rr: "R = 10" by blast+
    have "(2 :: real) ^ 16 = 65536" by simp
    then show "fst (get_uncertainty HP) = Inr [14 / 10 ^ 6, 3 / 10 ^ 6 + 10 / 65536]"
      unfolding r t rr b by simp
  qed
qed

theorem get_uncertainty_DCV_witness:
  "fst (get_uncertainty
         (synthetic (\<lambda>q. if q = ''FUNC?'' then ''1,10'' else if q = ''APER?'' then ''2e-6'' else ''10'') []))
     = Inr [14 / 10 ^ 6, 3 / 10 ^ 6 + 10 / 65536]"
proof -
  let ?HP = "synthetic (\<lambda>q. if q = ''FUNC?'' then ''1,10'' else if q = ''APER?'' then ''2e-6'' else ''10'') []"
  have a: "py_int (py_slice_to (answer ?HP (log ?HP) ''FUNC?'')
                    (py_find (answer ?HP (log ?HP) ''FUNC?'') CHR '','')) = Inr 1"
    by (simp add: synthetic_def py_slice_to_def py_find_def int_defs)
  have b: "py_float (answer ?HP (log ?HP @ [Query ''FUNC?'']) ''APER?'') = Inr (2 / 10 ^ 6)"
    by (simp add: synthetic_def float_defs)
  have c: "py_float (answer ?HP (log ?HP @ [Query ''FUNC?'', Query ''APER?'']) ''RANGE?'') = Inr 10"
    by (simp add: synthetic_def float_defs)
  from get_uncertainty_DCV [OF a b c] show ?thesis by blast
qed

text \<open>
  C5: when the reply to \<^verbatim>\<open>FUNC?\<close> reads mode 12, \<open>get_uncertainty\<close> queries the
  range \<open>R\<close> and returns \<open>[0.0002, R / 65536]\<close>; with a range of 1 this is
  \<open>[0.0002, 1 / 65536]\<close>.
\<close>

theorem get_uncertainty_direct:
  assumes "py_int (py_slice_to (answer HP (log HP) ''FUNC?'')
                    (py_find (answer HP (log HP) ''FUNC?'') CHR '','')) = Inr 12"
    and "py_float (answer HP (log HP @ [Query ''FUNC?'']) ''RANGE?'') = Inr R"
  shows "fst (get_uncertainty HP) = Inr [2 / 10 ^ 4, R / 65536]
       \<and> issued HP (snd (get_uncertainty HP)) = [Query ''FUNC?'', Query ''RANGE?'']
       \<and> (R = 1 \<longrightarrow> fst (get_uncertainty HP) = Inr [2 / 10 ^ 4, 1 / 65536])"
  using assms
  by (simp add: get_uncertainty_def get_uncertainty_direct_sampling_def hp_query_def
      Let_def issued_def)

theorem get_uncertainty_direct_witness:
  "fst (get_uncertainty (synthetic (\<lambda>q. if q = ''FUNC?'' then ''12,1'' else ''1'') []))
     = Inr [2 / 10 ^ 4, 1 / 65536]"
proof -
  let ?HP = "synthetic (\<lambda>q. if q = ''FUNC?'' then ''12,1'' else ''1'') []"
  have a: "py_int (py_slice_to (answer ?HP (log ?HP) ''FUNC?'')
                    (py_find (answer ?HP (log ?HP) ''FUNC?'') CHR '','')) = Inr 12"
    by (simp add: synthetic_def py_slice_to_def py_find_def int_defs)
  have b: "py_float (answer ?HP (log ?HP @ [Query ''FUNC?'']) ''RANGE?'') = Inr 1"
    by (simp add: synthetic_def float_defs)
  from get_uncertainty_direct [OF a b] show ?thesis by blast
qed

text \<open>
  C6: for every real aperture time, \<open>T_aper_check\<close> answers true exactly when the time
  lies between 500 nanoseconds and one second, both ends included. It rejects 499 ns and
  1.000001 s and accepts 500 ns and 1 s.
\<close>

theorem T_aper_check_window:
  "(T_aper_check t \<longleftrightarrow> 500 / 10 ^ 9 \<le> t \<and> t \<le> 1)
   \<and> \<not> T_aper_check (499 / 10 ^ 9)
   \<and> T_aper_check (500 / 10 ^ 9)
   \<and> T_aper_check 1
   \<and> \<not> T_aper_check (1000001 / 10 ^ 6)"
  by (auto simp: T_aper_check_def)

text \<open>
  C7: the first four commands of \<open>configure_DCV_digitalizing\<close> are the preset, the
  memory mode, and the memory and output formats, which are \<^verbatim>\<open>DINT\<close> exactly when
  the aperture time is above 1.4 microseconds and \<^verbatim>\<open>SINT\<close> otherwise, whatever the
  other arguments are. An aperture of 2 microseconds selects \<^verbatim>\<open>DINT\<close>, one of
  1 microsecond \<^verbatim>\<open>SINT\<close>.
\<close>

theorem configure_DCV_digitalizing_format:
  "take 4 (issued HP (snd (configure_DCV_digitalizing str_float HP n f aper_time max_input))) =
     [Write ''PRESET DIG'', Write ''MEM LIFO'',
      Write (if aper_time > 14 / 10 ^ 7 then ''MFORMAT DINT'' else ''MFORMAT SINT''),
      Write (if aper_time > 14 / 10 ^ 7 then ''OFORMAT DINT'' else ''OFORMAT SINT'')]
   \<and> take 4 (issued HP (snd (configure_DCV_digitalizing str_float HP n f (2 / 10 ^ 6) max_input))) =
       [Write ''PRESET DIG'', Write ''MEM LIFO'', Write ''MFORMAT DINT'', Write ''OFORMAT DINT'']
   \<and> take 4 (issued HP (snd (configure_DCV_digitalizing str_float HP n f (1 / 10 ^ 6) max_input))) =
       [Write ''PRESET DIG'', Write ''MEM LIFO'', Write ''MFORMAT SINT'', Write ''OFORMAT SINT'']"
  by (simp add: configure_DCV_digitalizing_def hp_write_def issued_def Let_def)

text \<open>
  C8: when the reply to \<^verbatim>\<open>FUNC?\<close> reads mode 14, \<open>get_uncertainty\<close> returns the
  placeholder \<open>[1, 1]\<close> after that one query. Nothing is assumed of the answers to any
  other query, and none is asked.
\<close>

theorem get_uncertainty_SSDC:
  assumes "py_int (py_slice_to (answer HP (log HP) ''FUNC?'')
                    (py_find (answer HP (log HP) ''FUNC?'') CHR '','')) = Inr 14"
  shows "get_uncertainty HP = (Inr [1, 1], HP\<lparr>log := log HP @ [Query ''FUNC?'']\<rparr>)"
  using assms by (simp add: get_uncertainty_def hp_query_def)

theorem get_uncertainty_SSDC_witness:
  "get_uncertainty (synthetic (\<lambda>q. if q = ''FUNC?'' then ''14,10'' else ''junk'') [])
     = (Inr [1, 1],
        (synthetic (\<lambda>q. if q = ''FUNC?'' then ''14,10'' else ''junk'') [])\<lparr>log := [Query ''FUNC?'']\<rparr>)"
proof -
  let ?HP = "synthetic (\<lambda>q. if q = ''FUNC?'' then ''14,10'' else ''junk'') []"
  have a: "py_int (py_slice_to (answer ?HP (log ?HP) ''FUNC?'')
                    (py_find (answer ?HP (log ?HP) ''FUNC?'') CHR '','')) = Inr 14"
    by (simp add: synthetic_def py_slice_to_def py_find_def int_defs)
  have l: "log ?HP = []" by (simp add: synthetic_def)
  show ?thesis
    using get_uncertainty_SSDC [OF a] by (simp add: l)
qed

text \<open>
  C9: when the reply to \<^verbatim>\<open>FUNC?\<close> reads a mode other than 1, 12 and 14, such as
  99, \<open>get_uncertainty\<close> ends with \<open>UnsupportedMode\<close>, and the function-mode query is the
  only operation it has issued.
\<close>

theorem get_uncertainty_unsupported:
  assumes "py_int (py_slice_to (answer HP (log HP) ''FUNC?'')
                    (py_find (answer HP (log HP) ''FUNC?'') CHR '','')) = Inr mode"
    and "mode \<noteq> 1" "mode \<noteq> 12" "mode \<noteq> 14"
  shows "get_uncertainty HP = (Inl UnsupportedMode, HP\<lparr>log := log HP @ [Query ''FUNC?'']\<rparr>)
       \<and> issued HP (snd (get_uncertainty HP)) = [Query ''FUNC?'']"
  using assms by (simp add: get_uncertainty_def hp_query_def issued_def)

theorem get_uncertainty_unsupported_witness:
  "fst (get_uncertainty (synthetic (\<lambda>q. ''99,10'') [])) = Inl UnsupportedMode
   \<and> issued (synthetic (\<lambda>q. ''99,10'') []) (snd (get_uncertainty (synthetic (\<lambda>q. ''99,10'') [])))
       = [Query ''FUNC?'']"
proof -
  let ?HP = "synthetic (\<lambda>q. ''99,10'') []"
  have a: "py_int (py_slice_to (answer ?HP (log ?HP) ''FUNC?'')
                    (py_find (answer ?HP (log ?HP) ''FUNC?'') CHR '','')) = Inr 99"
    by (simp add: synthetic_def py_slice_to_def py_find_def int_defs)
  have b: "(99 :: int) \<noteq> 1" "(99 :: int) \<noteq> 12" "(99 :: int) \<noteq> 14" by simp_all
  from get_uncertainty_unsupported [OF a b]
  have c: "get_uncertainty ?HP = (Inl UnsupportedMode, ?HP\<lparr>log := log ?HP @ [Query ''FUNC?'']\<rparr>)"
    and d: "issued ?HP (snd (get_uncertainty ?HP)) = [Query ''FUNC?'']"
    by blast+
  from c have "fst (get_uncertainty ?HP) = Inl UnsupportedMode" by simp
  with d show ?thesis by blast
qed

text \<open>
  C10: \<open>configure_sub_sampling\<close> does the same for any two values of \<open>max_input\<close>:
  the same outcome and the same commands written. Its first five commands are fixed,
  the fifth being the literal \<^verbatim>\<open>SSDC 1\<close> that sets the range.
\<close>

theorem configure_sub_sampling_max_input:
  "configure_sub_sampling str_float HP n f max_input
     = configure_sub_sampling str_float HP n f max_input'
   \<and> take 5 (issued HP (snd (configure_sub_sampling str_float HP n f max_input))) =
       [Write ''PRESET FAST'', Write ''MEM FIFO'', Write ''MFORMAT SINT'',
        Write ''OFORMAT SINT'', Write ''SSDC 1'']"
  by (simp add: configure_sub_sampling_def hp_write_def issued_def Let_def)

end
